theory Spec2Isabelle
  imports Complex_Main "HOL-Library.Char_ord" "HOL-Library.List_Lexorder"
begin

section \<open>JavaScript values\<close>

text \<open>
  The schema engine, the call signature and the agent loop of \<^verbatim>\<open>sidebar.js\<close> work on
  plain JavaScript data: schemas, candidate arguments and tool results are what
  \<^verbatim>\<open>JSON.parse\<close> or the extension's message channel deliver, plus \<^verbatim>\<open>undefined\<close> for a
  property that is read but absent.

  \<^item> A number is an exact rational, or one of \<^verbatim>\<open>NaN\<close>, \<^verbatim>\<open>Infinity\<close>, \<^verbatim>\<open>-Infinity\<close>. The
    rounding of IEEE doubles is outside the model (\<^verbatim>\<open>x + 0.1\<close> is exact here), and
    \<^verbatim>\<open>-0\<close> is \<^verbatim>\<open>0\<close>.
  \<^item> A string is a list of code units; the model has the code units 0 to 255.
  \<^item> An object is the list of its own properties in \<^verbatim>\<open>Object.entries\<close> order. JavaScript
    keeps the keys of one object distinct (\<open>wf\<close> below says so) and moves integer-like
    keys to the front; the second point is outside the model, so facts about objects are
    stated up to the order of keys. Properties inherited from \<^verbatim>\<open>Object.prototype\<close> are not
    modelled: a read of an absent key is \<^verbatim>\<open>undefined\<close>.
  \<^item> Objects and arrays have no identity here. Where the source compares by identity
    (\<^verbatim>\<open>===\<close>, \<^verbatim>\<open>Array.prototype.includes\<close>), the model takes the two operands to be
    separately allocated, which is the case for a candidate value against a schema: the
    comparison of two objects or arrays is false.
\<close>

datatype jsnum = Fin rat | NaN | PosInf | NegInf

datatype jsval =
    JUndef
  | JNull
  | JBool bool
  | JNum jsnum
  | JStr string
  | JArr "jsval list"
  | JObj "(string \<times> jsval) list"

subsection \<open>Numbers\<close>

fun isFinite :: "jsnum \<Rightarrow> bool" where
  "isFinite (Fin _) = True"
| "isFinite _ = False"

text \<open>\<^verbatim>\<open>a < b\<close> on numbers: every comparison with \<^verbatim>\<open>NaN\<close> is false.\<close>

fun num_lt :: "jsnum \<Rightarrow> jsnum \<Rightarrow> bool" where
  "num_lt NaN _ = False"
| "num_lt _ NaN = False"
| "num_lt (Fin a) (Fin b) = (a < b)"
| "num_lt (Fin _) PosInf = True"
| "num_lt (Fin _) NegInf = False"
| "num_lt PosInf _ = False"
| "num_lt NegInf NegInf = False"
| "num_lt NegInf _ = True"

text \<open>\<^verbatim>\<open>a === b\<close> on numbers: \<^verbatim>\<open>NaN\<close> differs from itself.\<close>

definition num_eq :: "jsnum \<Rightarrow> jsnum \<Rightarrow> bool" where
  "num_eq a b = (a = b \<and> a \<noteq> NaN)"

definition num_le :: "jsnum \<Rightarrow> jsnum \<Rightarrow> bool" where
  "num_le a b = (num_lt a b \<or> num_eq a b)"

definition num_gt :: "jsnum \<Rightarrow> jsnum \<Rightarrow> bool" where
  "num_gt a b = num_lt b a"

definition num_ge :: "jsnum \<Rightarrow> jsnum \<Rightarrow> bool" where
  "num_ge a b = num_le b a"

text \<open>\<^verbatim>\<open>a + q\<close> for a finite constant \<open>q\<close>.\<close>

fun num_add :: "jsnum \<Rightarrow> rat \<Rightarrow> jsnum" where
  "num_add (Fin a) q = Fin (a + q)"
| "num_add n _ = n"

text \<open>\<^verbatim>\<open>Math.round\<close> rounds halves up; \<^verbatim>\<open>Math.ceil\<close>, \<^verbatim>\<open>Math.floor\<close>.\<close>

fun math_round :: "jsnum \<Rightarrow> jsnum" where
  "math_round (Fin a) = Fin (of_int \<lfloor>a + 1 / 2\<rfloor>)"
| "math_round n = n"

fun math_ceil :: "jsnum \<Rightarrow> jsnum" where
  "math_ceil (Fin a) = Fin (of_int \<lceil>a\<rceil>)"
| "math_ceil n = n"

fun math_floor :: "jsnum \<Rightarrow> jsnum" where
  "math_floor (Fin a) = Fin (of_int \<lfloor>a\<rfloor>)"
| "math_floor n = n"

subsection \<open>Strings\<close>

definition digitChar :: "nat \<Rightarrow> char" where
  "digitChar d = ''0123456789'' ! d"

text \<open>\<^verbatim>\<open>String(index)\<close> of an array index.\<close>

fun natToString :: "nat \<Rightarrow> string" where
  "natToString n =
     (if n < 10 then [digitChar n] else natToString (n div 10) @ [digitChar (n mod 10)])"

declare natToString.simps [simp del]

fun startsWith :: "string \<Rightarrow> string \<Rightarrow> bool" where
  "startsWith _ [] = True"
| "startsWith [] (_ # _) = False"
| "startsWith (c # cs) (d # ds) = (c = d \<and> startsWith cs ds)"

text \<open>\<^verbatim>\<open>s.includes(n)\<close>.\<close>

fun strIncludes :: "string \<Rightarrow> string \<Rightarrow> bool" where
  "strIncludes [] n = (n = [])"
| "strIncludes (c # cs) n = (startsWith (c # cs) n \<or> strIncludes cs n)"

text \<open>\<^verbatim>\<open>toLowerCase\<close> on the code units 0 to 255.\<close>

definition lowerChar :: "char \<Rightarrow> char" where
  "lowerChar c =
     (let n = of_char c :: nat in
      if (65 \<le> n \<and> n \<le> 90) \<or> (192 \<le> n \<and> n \<le> 222 \<and> n \<noteq> 215)
      then char_of (n + 32) else c)"

definition toLowerCase :: "string \<Rightarrow> string" where
  "toLowerCase s = map lowerChar s"

definition isDigit :: "char \<Rightarrow> bool" where
  "isDigit c = (let n = of_char c :: nat in 48 \<le> n \<and> n \<le> 57)"

definition digitVal :: "char \<Rightarrow> nat" where
  "digitVal c = of_char c - 48"

subsection \<open>Reading values\<close>

text \<open>\<^verbatim>\<open>!!v\<close>.\<close>

fun truthy :: "jsval \<Rightarrow> bool" where
  "truthy JUndef = False"
| "truthy JNull = False"
| "truthy (JBool b) = b"
| "truthy (JNum n) = (n \<noteq> NaN \<and> n \<noteq> Fin 0)"
| "truthy (JStr s) = (s \<noteq> [])"
| "truthy (JArr _) = True"
| "truthy (JObj _) = True"

text \<open>\<^verbatim>\<open>typeof v === 'object'\<close> holds of \<^verbatim>\<open>null\<close>, of arrays and of objects.\<close>

fun typeofObject :: "jsval \<Rightarrow> bool" where
  "typeofObject JNull = True"
| "typeofObject (JArr _) = True"
| "typeofObject (JObj _) = True"
| "typeofObject _ = False"

fun isString :: "jsval \<Rightarrow> bool" where
  "isString (JStr _) = True"
| "isString _ = False"

fun isNumber :: "jsval \<Rightarrow> bool" where
  "isNumber (JNum _) = True"
| "isNumber _ = False"

fun isBoolean :: "jsval \<Rightarrow> bool" where
  "isBoolean (JBool _) = True"
| "isBoolean _ = False"

fun isArray :: "jsval \<Rightarrow> bool" where
  "isArray (JArr _) = True"
| "isArray _ = False"

text \<open>\<^verbatim>\<open>v && typeof v === 'object' && !Array.isArray(v)\<close>.\<close>

fun isPlainObject :: "jsval \<Rightarrow> bool" where
  "isPlainObject (JObj _) = True"
| "isPlainObject _ = False"

text \<open>
  \<^verbatim>\<open>v[k]\<close> and \<^verbatim>\<open>v.k\<close> for the property names the source reads (schema keywords and
  declared property names, none of them an array index or \<^verbatim>\<open>length\<close>): the own property
  of an object, \<^verbatim>\<open>undefined\<close> otherwise.
\<close>

fun getProp :: "jsval \<Rightarrow> string \<Rightarrow> jsval" where
  "getProp (JObj kvs) k = (case map_of kvs k of Some v \<Rightarrow> v | None \<Rightarrow> JUndef)"
| "getProp _ _ = JUndef"

text \<open>\<^verbatim>\<open>Object.prototype.hasOwnProperty.call(v, k)\<close>, for the same property names.\<close>

fun hasOwn :: "jsval \<Rightarrow> string \<Rightarrow> bool" where
  "hasOwn (JObj kvs) k = (map_of kvs k \<noteq> None)"
| "hasOwn _ _ = False"

text \<open>\<^verbatim>\<open>Object.entries(v)\<close>: the indexed elements of an array, the characters of a string.\<close>

fun indexed :: "nat \<Rightarrow> 'a list \<Rightarrow> (string \<times> 'a) list" where
  "indexed _ [] = []"
| "indexed i (x # xs) = (natToString i, x) # indexed (Suc i) xs"

fun objectEntries :: "jsval \<Rightarrow> (string \<times> jsval) list" where
  "objectEntries (JObj kvs) = kvs"
| "objectEntries (JArr xs) = indexed 0 xs"
| "objectEntries (JStr s) = indexed 0 (map (\<lambda>c. JStr [c]) s)"
| "objectEntries _ = []"

text \<open>\<^verbatim>\<open>a === b\<close>, and the \<^verbatim>\<open>SameValueZero\<close> of \<^verbatim>\<open>includes\<close>, which differ on \<^verbatim>\<open>NaN\<close> only.\<close>

fun strictEq :: "jsval \<Rightarrow> jsval \<Rightarrow> bool" where
  "strictEq JUndef JUndef = True"
| "strictEq JNull JNull = True"
| "strictEq (JBool a) (JBool b) = (a = b)"
| "strictEq (JNum a) (JNum b) = num_eq a b"
| "strictEq (JStr a) (JStr b) = (a = b)"
| "strictEq _ _ = False"

fun sameValueZero :: "jsval \<Rightarrow> jsval \<Rightarrow> bool" where
  "sameValueZero (JNum a) (JNum b) = (a = b)"
| "sameValueZero a b = strictEq a b"

definition arrayIncludes :: "jsval list \<Rightarrow> jsval \<Rightarrow> bool" where
  "arrayIncludes xs v = list_ex (\<lambda>x. sameValueZero x v) xs"


subsection \<open>Conversion to a number\<close>

text \<open>
  \<^verbatim>\<open>Number(s)\<close> of a string: white space is trimmed, the empty string is 0, then an
  optional sign before \<^verbatim>\<open>Infinity\<close> or a decimal literal (digits, fraction, exponent), or an
  unsigned \<^verbatim>\<open>0x\<close>, \<^verbatim>\<open>0o\<close> or \<^verbatim>\<open>0b\<close> literal; anything else is \<^verbatim>\<open>NaN\<close>.
\<close>

definition isWhiteSpace :: "char \<Rightarrow> bool" where
  "isWhiteSpace c = (of_char c \<in> {9, 10, 11, 12, 13, 32, 160 :: nat})"

definition trim :: "string \<Rightarrow> string" where
  "trim s = rev (dropWhile isWhiteSpace (rev (dropWhile isWhiteSpace s)))"

definition decimalValue :: "string \<Rightarrow> nat" where
  "decimalValue ds = foldl (\<lambda>a c. 10 * a + digitVal c) 0 ds"

definition radixDigit :: "char \<Rightarrow> nat option" where
  "radixDigit c =
     (let n = of_char c :: nat in
      if 48 \<le> n \<and> n \<le> 57 then Some (n - 48)
      else if 97 \<le> n \<and> n \<le> 102 then Some (n - 87)
      else if 65 \<le> n \<and> n \<le> 70 then Some (n - 55)
      else None)"

fun radixValue :: "nat \<Rightarrow> nat \<Rightarrow> string \<Rightarrow> nat option" where
  "radixValue b acc [] = Some acc"
| "radixValue b acc (c # cs) =
     (case radixDigit c of
        None \<Rightarrow> None
      | Some d \<Rightarrow> if d < b then radixValue b (b * acc + d) cs else None)"

definition radixLiteral :: "string \<Rightarrow> nat option" where
  "radixLiteral s =
     (case s of
        c0 # c1 # d # ds \<Rightarrow>
          if c0 \<noteq> CHR ''0'' then None
          else if c1 = CHR ''x'' \<or> c1 = CHR ''X'' then radixValue 16 0 (d # ds)
          else if c1 = CHR ''o'' \<or> c1 = CHR ''O'' then radixValue 8 0 (d # ds)
          else if c1 = CHR ''b'' \<or> c1 = CHR ''B'' then radixValue 2 0 (d # ds)
          else None
      | _ \<Rightarrow> None)"

definition exponentPart :: "string \<Rightarrow> int option" where
  "exponentPart s =
     (let neg = (s \<noteq> [] \<and> hd s = CHR ''-'');
          ds = (if s \<noteq> [] \<and> (hd s = CHR ''-'' \<or> hd s = CHR ''+'') then tl s else s)
      in if ds \<noteq> [] \<and> list_all isDigit ds
         then Some (if neg then - int (decimalValue ds) else int (decimalValue ds))
         else None)"

definition scale10 :: "rat \<Rightarrow> int \<Rightarrow> rat" where
  "scale10 m e = (if 0 \<le> e then m * 10 ^ nat e else m / 10 ^ nat (- e))"

definition unsignedDecimal :: "string \<Rightarrow> rat option" where
  "unsignedDecimal s =
     (let ip = takeWhile isDigit s;
          r1 = dropWhile isDigit s;
          dot = (r1 \<noteq> [] \<and> hd r1 = CHR ''.'');
          fp = (if dot then takeWhile isDigit (tl r1) else []);
          r2 = (if dot then dropWhile isDigit (tl r1) else r1);
          m = of_nat (decimalValue ip) + of_nat (decimalValue fp) / 10 ^ length fp
      in if ip = [] \<and> fp = [] then None
         else if r2 = [] then Some m
         else if hd r2 = CHR ''e'' \<or> hd r2 = CHR ''E''
         then map_option (scale10 m) (exponentPart (tl r2))
         else None)"

definition stringToNumber :: "string \<Rightarrow> jsnum" where
  "stringToNumber s0 =
     (let s = trim s0 in
      if s = [] then Fin 0
      else case radixLiteral s of
        Some n \<Rightarrow> Fin (of_nat n)
      | None \<Rightarrow>
          (let neg = (hd s = CHR ''-'');
               u = (if hd s = CHR ''-'' \<or> hd s = CHR ''+'' then tl s else s)
           in if u = ''Infinity'' then (if neg then NegInf else PosInf)
              else case unsignedDecimal u of
                Some q \<Rightarrow> Fin (if neg then - q else q)
              | None \<Rightarrow> NaN))"

text \<open>
  \<^verbatim>\<open>Number(v)\<close>. An array goes through its string: the empty array is the empty string,
  an array of one element is that element's string (empty for \<^verbatim>\<open>null\<close> and
  \<^verbatim>\<open>undefined\<close>; a number's string reads back as the number), and a longer one has a
  comma. A plain object is \<^verbatim>\<open>"[object Object]"\<close>.
\<close>

fun toNumber :: "jsval \<Rightarrow> jsnum" where
  "toNumber JUndef = NaN"
| "toNumber JNull = Fin 0"
| "toNumber (JBool b) = Fin (if b then 1 else 0)"
| "toNumber (JNum n) = n"
| "toNumber (JStr s) = stringToNumber s"
| "toNumber (JArr []) = Fin 0"
| "toNumber (JArr [JUndef]) = Fin 0"
| "toNumber (JArr [JNull]) = Fin 0"
| "toNumber (JArr [JBool b]) = NaN"
| "toNumber (JArr [JNum n]) = n"
| "toNumber (JArr [JStr s]) = stringToNumber s"
| "toNumber (JArr [JArr xs]) = toNumber (JArr xs)"
| "toNumber (JArr [JObj kvs]) = NaN"
| "toNumber (JArr (x # y # zs)) = NaN"
| "toNumber (JObj kvs) = NaN"

text \<open>\<^verbatim>\<open>Math.trunc\<close> of a finite number, as the integer conversions of string methods do.\<close>

definition truncRat :: "rat \<Rightarrow> int" where
  "truncRat q = (if 0 \<le> q then \<lfloor>q\<rfloor> else \<lceil>q\<rceil>)"

section \<open>The environment\<close>

text \<open>
  What the source takes from the JavaScript runtime and the clock, as parameters of the
  model: \<^verbatim>\<open>JSON.parse\<close> (\<open>None\<close> when it throws), \<^verbatim>\<open>new RegExp(p).test(v)\<close> (\<open>None\<close>
  when either throws), the local date \<open>n\<close> days ahead as \<^verbatim>\<open>YYYY-MM-DD\<close>, the current
  instant as an ISO string, and \<^verbatim>\<open>String(q)\<close> for a finite number \<open>q\<close>.
\<close>

record js_env =
  jsonParse :: "string \<Rightarrow> jsval option"
  regexTest :: "string \<Rightarrow> string \<Rightarrow> bool option"
  dateAheadISO :: "nat \<Rightarrow> string"
  nowISO :: string
  finiteToString :: "rat \<Rightarrow> string"

text \<open>
  \<^verbatim>\<open>String(v)\<close>, which is also the string a \<^verbatim>\<open>RegExp\<close> tests and a template literal
  inserts: an array joins its elements with commas (\<^verbatim>\<open>null\<close> and \<^verbatim>\<open>undefined\<close> are
  empty there), a plain object is \<^verbatim>\<open>[object Object]\<close>.
\<close>

fun joinWith :: "string \<Rightarrow> string list \<Rightarrow> string" where
  "joinWith sep [] = []"
| "joinWith sep [x] = x"
| "joinWith sep (x # y # zs) = x @ sep @ joinWith sep (y # zs)"

fun numberToString :: "js_env \<Rightarrow> jsnum \<Rightarrow> string" where
  "numberToString env (Fin q) = finiteToString env q"
| "numberToString env NaN = ''NaN''"
| "numberToString env PosInf = ''Infinity''"
| "numberToString env NegInf = ''-Infinity''"

fun toStringJS :: "js_env \<Rightarrow> jsval \<Rightarrow> string" where
  "toStringJS env JUndef = ''undefined''"
| "toStringJS env JNull = ''null''"
| "toStringJS env (JBool b) = (if b then ''true'' else ''false'')"
| "toStringJS env (JNum n) = numberToString env n"
| "toStringJS env (JStr s) = s"
| "toStringJS env (JArr xs) =
     joinWith '','' (map (\<lambda>x. if x = JUndef \<or> x = JNull then [] else toStringJS env x) xs)"
| "toStringJS env (JObj kvs) = ''[object Object]''"

section \<open>Schema engine\<close>

subsection \<open>parseSchema\<close>

definition fallbackSchema :: jsval where
  "fallbackSchema = JObj [(''type'', JStr ''object''), (''properties'', JObj [])]"

definition parseSchema :: "js_env \<Rightarrow> jsval \<Rightarrow> jsval" where
  "parseSchema env schema =
     (if \<not> truthy schema then fallbackSchema
      else case schema of
        JStr s \<Rightarrow> (case jsonParse env s of Some v \<Rightarrow> v | None \<Rightarrow> fallbackSchema)
      | _ \<Rightarrow> schema)"

subsection \<open>generateTemplateFromSchema\<close>

text \<open>\<^verbatim>\<open>Array.isArray(v) && v.length > 0\<close>, and \<^verbatim>\<open>v[0]\<close> of such an array.\<close>

fun nonEmptyArray :: "jsval \<Rightarrow> bool" where
  "nonEmptyArray (JArr (_ # _)) = True"
| "nonEmptyArray _ = False"

fun firstOf :: "jsval \<Rightarrow> jsval" where
  "firstOf (JArr (x # _)) = x"
| "firstOf _ = JUndef"

fun elems :: "jsval \<Rightarrow> jsval list" where
  "elems (JArr xs) = xs"
| "elems _ = []"

text \<open>\<^verbatim>\<open>schema.properties || {}\<close>.\<close>

definition propertiesOf :: "jsval \<Rightarrow> jsval" where
  "propertiesOf schema =
     (if truthy (getProp schema ''properties'') then getProp schema ''properties'' else JObj [])"

text \<open>\<^verbatim>\<open>String(path[path.length - 1] || '').toLowerCase()\<close>.\<close>

definition fieldNameOf :: "string list \<Rightarrow> string" where
  "fieldNameOf path = toLowerCase (if path = [] then [] else last path)"

definition getFutureDateISO :: "js_env \<Rightarrow> nat \<Rightarrow> jsval" where
  "getFutureDateISO env daysAhead = JStr (dateAheadISO env daysAhead)"

definition minOf :: "jsnum \<Rightarrow> nat \<Rightarrow> nat" where
  "minOf n k = (case n of Fin q \<Rightarrow> if q < of_nat k then nat (truncRat q) else k | _ \<Rightarrow> k)"

definition templateString :: "js_env \<Rightarrow> jsval \<Rightarrow> string list \<Rightarrow> jsval" where
  "templateString env schema path =
     (let fieldName = fieldNameOf path;
          format = getProp schema ''format'' in
      if strictEq format (JStr ''date'') then
        (if strIncludes fieldName ''inbound'' \<or> strIncludes fieldName ''return''
         then getFutureDateISO env 2 else getFutureDateISO env 1)
      else if strictEq format (JStr ''date-time'') then JStr (nowISO env)
      else if strictEq format (JStr ''email'') then JStr ''user@example.com''
      else if strictEq format (JStr ''uri'') \<or> strictEq format (JStr ''url'')
      then JStr ''https://example.com''
      else if nonEmptyArray (getProp schema ''enum'')
      then JStr (toStringJS env (firstOf (getProp schema ''enum'')))
      else
        (let pattern = (case getProp schema ''pattern'' of JStr p \<Rightarrow> p | _ \<Rightarrow> []) in
         if pattern = ''^[A-Z]{3}$'' then
           (if strIncludes fieldName ''dest'' \<or> strIncludes fieldName ''arrival''
            then JStr ''LAX'' else JStr ''SFO'')
         else if strIncludes fieldName ''origin'' \<or> strIncludes fieldName ''departure''
              \<or> strIncludes fieldName ''from''
         then JStr ''SFO''
         else if strIncludes fieldName ''destination'' \<or> strIncludes fieldName ''arrival''
         then JStr ''LAX''
         else case getProp schema ''minLength'' of
           JNum n \<Rightarrow>
             if num_gt n (Fin 0) then JStr (replicate (minOf n 24) CHR ''a'')
             else JStr ''sample''
         | _ \<Rightarrow> JStr ''sample''))"

definition templateNumber :: "jsval \<Rightarrow> string list \<Rightarrow> jsval" where
  "templateNumber schema path =
     (let fieldName = fieldNameOf path in
      case getProp schema ''minimum'' of
        JNum m \<Rightarrow> JNum m
      | _ \<Rightarrow>
        (case getProp schema ''exclusiveMinimum'' of
           JNum e \<Rightarrow>
             if strictEq (getProp schema ''type'') (JStr ''integer'')
             then JNum (math_ceil (num_add e 1))
             else JNum (num_add e (1 / 10))
         | _ \<Rightarrow>
             if strIncludes fieldName ''passenger'' \<or> strIncludes fieldName ''count''
                \<or> strIncludes fieldName ''quantity''
             then JNum (Fin 1)
             else JNum (Fin 1)))"

lemma size_map_of:
  "map_of kvs k = Some v \<Longrightarrow> size v < Suc (size_list (size_prod (\<lambda>x. 0) size) kvs)"
  by (induction kvs) (auto split: if_splits)

lemma size_getProp: "getProp s k \<noteq> JUndef \<Longrightarrow> size (getProp s k) < size s"
  by (cases s) (auto split: option.splits dest: size_map_of)

lemma size_firstOf: "nonEmptyArray a \<Longrightarrow> size (firstOf a) < size a"
  by (cases a rule: firstOf.cases) auto

lemma size_firstOf_getProp:
  "nonEmptyArray (getProp s k) \<Longrightarrow> size (firstOf (getProp s k)) < size s"
  using size_firstOf [of "getProp s k"] size_getProp [of s k] by (cases "getProp s k") auto

lemma indexed_mem: "(k, c) \<in> set (indexed i xs) \<Longrightarrow> c \<in> set xs"
  by (induction i xs rule: indexed.induct) auto

lemma size_in_list: "c \<in> set xs \<Longrightarrow> size c < Suc (size_list size xs)"
  by (induction xs) auto

lemma size_in_kvs:
  "(k, c) \<in> set kvs \<Longrightarrow> size c < Suc (size_list (size_prod (\<lambda>x. 0) size) kvs)"
  by (induction kvs) auto

lemma size_objectEntries: "(k, c) \<in> set (objectEntries p) \<Longrightarrow> size c \<le> size p"
proof (cases p)
  case (JArr xs)
  assume "(k, c) \<in> set (objectEntries p)"
  with JArr have "c \<in> set xs" by (auto dest: indexed_mem)
  with JArr show ?thesis using size_in_list [of c xs] by simp
next
  case (JStr s)
  assume "(k, c) \<in> set (objectEntries p)"
  with JStr have "c \<in> set (map (\<lambda>c. JStr [c]) s)" by (auto dest: indexed_mem)
  then show ?thesis by auto
next
  case (JObj kvs)
  assume "(k, c) \<in> set (objectEntries p)"
  with JObj show ?thesis using size_in_kvs [of k c kvs] by simp
qed auto

lemma size_propertiesOf:
  "(k, c) \<in> set (objectEntries (propertiesOf s)) \<Longrightarrow> size c < size s"
proof -
  assume a: "(k, c) \<in> set (objectEntries (propertiesOf s))"
  then have t: "truthy (getProp s ''properties'')"
    by (auto simp: propertiesOf_def split: if_splits)
  then have "getProp s ''properties'' \<noteq> JUndef" by auto
  then have "size (getProp s ''properties'') < size s" by (rule size_getProp)
  moreover from a t have "size c \<le> size (getProp s ''properties'')"
    by (auto simp: propertiesOf_def dest: size_objectEntries)
  ultimately show ?thesis by simp
qed

lemma size_items: "truthy (getProp s k) \<Longrightarrow> size (getProp s k) < size s"
  by (rule size_getProp) auto

function generateTemplateFromSchema :: "js_env \<Rightarrow> jsval \<Rightarrow> string list \<Rightarrow> jsval" where
  "generateTemplateFromSchema env schema path =
     (if \<not> truthy schema \<or> \<not> typeofObject schema then JObj []
      else if hasOwn schema ''const'' then getProp schema ''const''
      else if hasOwn schema ''default'' then getProp schema ''default''
      else if nonEmptyArray (getProp schema ''examples'') then firstOf (getProp schema ''examples'')
      else if nonEmptyArray (getProp schema ''enum'') then firstOf (getProp schema ''enum'')
      else if nonEmptyArray (getProp schema ''oneOf'')
      then generateTemplateFromSchema env (firstOf (getProp schema ''oneOf'')) path
      else if nonEmptyArray (getProp schema ''anyOf'')
      then generateTemplateFromSchema env (firstOf (getProp schema ''anyOf'')) path
      else if strictEq (getProp schema ''type'') (JStr ''object'') then
        JObj (map (\<lambda>(key, childSchema).
                     (key, generateTemplateFromSchema env childSchema (path @ [key])))
                (objectEntries (propertiesOf schema)))
      else if strictEq (getProp schema ''type'') (JStr ''array'') then
        (if truthy (getProp schema ''items'')
         then JArr [generateTemplateFromSchema env (getProp schema ''items'') (path @ [''0''])]
         else JArr [])
      else if strictEq (getProp schema ''type'') (JStr ''string'')
      then templateString env schema path
      else if strictEq (getProp schema ''type'') (JStr ''number'')
              \<or> strictEq (getProp schema ''type'') (JStr ''integer'')
      then templateNumber schema path
      else if strictEq (getProp schema ''type'') (JStr ''boolean'') then JBool False
      else if strictEq (getProp schema ''type'') (JStr ''null'') then JNull
      else JObj [])"
  by pat_completeness auto
termination
  by (relation "measure (\<lambda>(env, schema, path). size schema)")
     (auto simp: size_firstOf_getProp size_propertiesOf size_items)

declare generateTemplateFromSchema.simps [simp del]



subsection \<open>normalizeInputForSchema\<close>

text \<open>\<^verbatim>\<open>/^\d{4}-\d{2}-\d{2}$/.test(s)\<close> on a string.\<close>

definition dateShape :: "string \<Rightarrow> bool" where
  "dateShape s =
     (case s of
        [y1, y2, y3, y4, d1, m1, m2, d2, a1, a2] \<Rightarrow>
          isDigit y1 \<and> isDigit y2 \<and> isDigit y3 \<and> isDigit y4 \<and> d1 = CHR ''-''
          \<and> isDigit m1 \<and> isDigit m2 \<and> d2 = CHR ''-'' \<and> isDigit a1 \<and> isDigit a2
      | _ \<Rightarrow> False)"

text \<open>
  \<^verbatim>\<open>v.length\<close>: the length of a string or an array, the own property of an object,
  \<^verbatim>\<open>undefined\<close> on a number or a boolean, and a \<^verbatim>\<open>TypeError\<close> (\<open>None\<close>) on \<^verbatim>\<open>null\<close> and
  \<^verbatim>\<open>undefined\<close>.
\<close>

fun lengthProp :: "jsval \<Rightarrow> jsval option" where
  "lengthProp (JStr s) = Some (JNum (Fin (of_nat (length s))))"
| "lengthProp (JArr xs) = Some (JNum (Fin (of_nat (length xs))))"
| "lengthProp (JObj kvs) = Some (getProp (JObj kvs) ''length'')"
| "lengthProp (JNum _) = Some JUndef"
| "lengthProp (JBool _) = Some JUndef"
| "lengthProp JNull = None"
| "lengthProp JUndef = None"

text \<open>
  \<^verbatim>\<open>s.padEnd(m, 'a')\<close> for a number \<open>m\<close> above the length of \<open>s\<close>: \<^verbatim>\<open>Infinity\<close> is a
  \<^verbatim>\<open>RangeError\<close> (\<open>None\<close>). The engine's limit on the length of a string is outside the
  model.
\<close>

fun padEnd :: "string \<Rightarrow> jsnum \<Rightarrow> string option" where
  "padEnd s (Fin q) = Some (s @ replicate (nat (truncRat q) - length s) CHR ''a'')"
| "padEnd s _ = None"

text \<open>\<^verbatim>\<open>v.slice(0, m)\<close> on a string or an array, for a number \<open>m\<close> below its length.\<close>

fun sliceEnd :: "nat \<Rightarrow> jsnum \<Rightarrow> nat" where
  "sliceEnd len (Fin q) =
     (let k = truncRat q in if k < 0 then nat (max (int len + k) 0) else min (nat k) len)"
| "sliceEnd len NegInf = 0"
| "sliceEnd len PosInf = len"
| "sliceEnd len NaN = 0"

definition sliceTo :: "'a list \<Rightarrow> jsnum \<Rightarrow> 'a list" where
  "sliceTo xs m = take (sliceEnd (length xs) m) xs"

text \<open>
  The \<^verbatim>\<open>minLength\<close> and \<^verbatim>\<open>maxLength\<close> steps of the string case. \<open>next\<close> is the candidate
  when it is a string and the template otherwise, which need not be a string: reading
  \<^verbatim>\<open>length\<close> of \<^verbatim>\<open>null\<close>, or calling \<^verbatim>\<open>padEnd\<close> or \<^verbatim>\<open>slice\<close> where there is none, raises
  a \<^verbatim>\<open>TypeError\<close>.
\<close>

definition minLengthStep :: "jsval \<Rightarrow> jsval \<times> bool \<Rightarrow> (jsval \<times> bool) option" where
  "minLengthStep schema r =
     (case getProp schema ''minLength'' of
        JNum m \<Rightarrow>
          (case lengthProp (fst r) of
             None \<Rightarrow> None
           | Some len \<Rightarrow>
               if num_lt (toNumber len) m then
                 (case fst r of
                    JStr s \<Rightarrow> map_option (\<lambda>p. (JStr p, True)) (padEnd s m)
                  | _ \<Rightarrow> None)
               else Some r)
      | _ \<Rightarrow> Some r)"

definition maxLengthStep :: "jsval \<Rightarrow> jsval \<times> bool \<Rightarrow> (jsval \<times> bool) option" where
  "maxLengthStep schema r =
     (case getProp schema ''maxLength'' of
        JNum m \<Rightarrow>
          (case lengthProp (fst r) of
             None \<Rightarrow> None
           | Some len \<Rightarrow>
               if num_gt (toNumber len) m then
                 (case fst r of
                    JStr s \<Rightarrow> Some (JStr (sliceTo s m), True)
                  | JArr xs \<Rightarrow> Some (JArr (sliceTo xs m), True)
                  | _ \<Rightarrow> None)
               else Some r)
      | _ \<Rightarrow> Some r)"

text \<open>
  The string case; \<open>template\<close> is \<^verbatim>\<open>this.generateTemplateFromSchema(schema, path)\<close>. A
  pattern that \<^verbatim>\<open>RegExp\<close> rejects is ignored.
\<close>

definition normalizeString ::
  "js_env \<Rightarrow> jsval \<Rightarrow> jsval \<Rightarrow> jsval \<Rightarrow> (jsval \<times> bool) option" where
  "normalizeString env schema v template =
     (let r0 = (if isString v then v else template, \<not> isString v);
          r1 = (if strictEq (getProp schema ''format'') (JStr ''date'')
                   \<and> \<not> dateShape (toStringJS env (fst r0))
                then (template, True) else r0);
          r2 = (case getProp schema ''pattern'' of
                  JStr p \<Rightarrow>
                    if regexTest env p (toStringJS env (fst r1)) = Some False
                    then (template, True) else r1
                | _ \<Rightarrow> r1)
      in case minLengthStep schema r2 of
           None \<Rightarrow> None
         | Some r3 \<Rightarrow> maxLengthStep schema r3)"

text \<open>
  The number and integer case, one definition for each statement of the source; a step
  takes and returns \<^verbatim>\<open>next\<close> and \<^verbatim>\<open>changed\<close>.
\<close>

definition isIntegerSchema :: "jsval \<Rightarrow> bool" where
  "isIntegerSchema schema = strictEq (getProp schema ''type'') (JStr ''integer'')"

definition coerceStep :: "jsval \<Rightarrow> jsval \<Rightarrow> jsnum \<times> bool" where
  "coerceStep v template =
     (if \<not> isFinite (toNumber v) then (toNumber template, True) else (toNumber v, False))"

definition roundStep :: "jsval \<Rightarrow> jsnum \<times> bool \<Rightarrow> jsnum \<times> bool" where
  "roundStep schema r =
     (if isIntegerSchema schema
      then (math_round (fst r), snd r \<or> \<not> num_eq (math_round (fst r)) (fst r))
      else r)"

definition minimumStep :: "jsval \<Rightarrow> jsnum \<times> bool \<Rightarrow> jsnum \<times> bool" where
  "minimumStep schema r =
     (case getProp schema ''minimum'' of
        JNum m \<Rightarrow> if num_lt (fst r) m then (m, True) else r
      | _ \<Rightarrow> r)"

definition exclusiveMinimumStep :: "jsval \<Rightarrow> jsnum \<times> bool \<Rightarrow> jsnum \<times> bool" where
  "exclusiveMinimumStep schema r =
     (case getProp schema ''exclusiveMinimum'' of
        JNum e \<Rightarrow>
          if num_le (fst r) e
          then (if isIntegerSchema schema then math_ceil (num_add e 1) else num_add e (1 / 10),
                True)
          else r
      | _ \<Rightarrow> r)"

definition maximumStep :: "jsval \<Rightarrow> jsnum \<times> bool \<Rightarrow> jsnum \<times> bool" where
  "maximumStep schema r =
     (case getProp schema ''maximum'' of
        JNum m \<Rightarrow> if num_gt (fst r) m then (m, True) else r
      | _ \<Rightarrow> r)"

definition exclusiveMaximumStep :: "jsval \<Rightarrow> jsnum \<times> bool \<Rightarrow> jsnum \<times> bool" where
  "exclusiveMaximumStep schema r =
     (case getProp schema ''exclusiveMaximum'' of
        JNum e \<Rightarrow>
          if num_ge (fst r) e
          then (if isIntegerSchema schema then math_floor (num_add e (- 1))
                else num_add e (- (1 / 10)),
                True)
          else r
      | _ \<Rightarrow> r)"

definition boundSteps :: "jsval \<Rightarrow> jsnum \<times> bool \<Rightarrow> jsnum \<times> bool" where
  "boundSteps schema r =
     exclusiveMaximumStep schema
       (maximumStep schema (exclusiveMinimumStep schema (minimumStep schema r)))"

definition normalizeNumber :: "jsval \<Rightarrow> jsval \<Rightarrow> jsval \<Rightarrow> jsval \<times> bool" where
  "normalizeNumber schema v template =
     (let r = boundSteps schema (roundStep schema (coerceStep v template))
      in (JNum (fst r), snd r))"

text \<open>\<^verbatim>\<open>new Set(Array.isArray(schema.required) ? schema.required : []).has(key)\<close>.\<close>

definition requiredHas :: "jsval \<Rightarrow> string \<Rightarrow> bool" where
  "requiredHas schema key = (JStr key \<in> set (elems (getProp schema ''required'')))"

text \<open>
  The properties the first loop of the object case does not skip, and the entries of the
  source that the second loop copies.
\<close>

definition keptProperties :: "jsval \<Rightarrow> jsval \<Rightarrow> (string \<times> jsval) list" where
  "keptProperties schema source =
     filter (\<lambda>(key, childSchema).
               \<not> (strictEq (getProp source key) JUndef \<and> \<not> requiredHas schema key))
       (objectEntries (propertiesOf schema))"

definition copiedEntries :: "(string \<times> jsval) list \<Rightarrow> jsval \<Rightarrow> (string \<times> jsval) list" where
  "copiedEntries out source = filter (\<lambda>(key, rawValue). key \<notin> fst ` set out) (objectEntries source)"

lemma size_keptProperties:
  "(k, c) \<in> set (keptProperties s src) \<Longrightarrow> size c < size s"
  by (auto simp: keptProperties_def dest: size_propertiesOf)

function normalizeInputForSchema ::
  "js_env \<Rightarrow> jsval \<Rightarrow> jsval \<Rightarrow> string list \<Rightarrow> (jsval \<times> bool) option" where
  "normalizeInputForSchema env schema v path =
     (if \<not> truthy schema \<or> \<not> typeofObject schema then Some (v, False)
      else if nonEmptyArray (getProp schema ''oneOf'')
      then normalizeInputForSchema env (firstOf (getProp schema ''oneOf'')) v path
      else if nonEmptyArray (getProp schema ''anyOf'')
      then normalizeInputForSchema env (firstOf (getProp schema ''anyOf'')) v path
      else if nonEmptyArray (getProp schema ''enum'')
              \<and> \<not> arrayIncludes (elems (getProp schema ''enum'')) v
      then Some (firstOf (getProp schema ''enum''), True)
      else if hasOwn schema ''const'' \<and> \<not> strictEq v (getProp schema ''const'')
      then Some (getProp schema ''const'', True)
      else if strictEq (getProp schema ''type'') (JStr ''object'') then
        (let source = (if isPlainObject v then v else JObj []) in
         case those (map (\<lambda>(key, childSchema).
                            map_option (Pair key)
                              (normalizeInputForSchema env childSchema (getProp source key)
                                 (path @ [key])))
                       (keptProperties schema source)) of
           None \<Rightarrow> None
         | Some rs \<Rightarrow>
             (let out = map (\<lambda>(key, r). (key, fst r)) rs in
              Some (JObj (out @ copiedEntries out source),
                    \<not> isPlainObject v \<or> list_ex (\<lambda>(key, r). snd r) rs)))
      else if strictEq (getProp schema ''type'') (JStr ''array'') then
        (if \<not> truthy (getProp schema ''items'') then Some (JArr (elems v), \<not> isArray v)
         else case those (map (\<lambda>(index, item).
                                 normalizeInputForSchema env (getProp schema ''items'') item
                                   (path @ [index]))
                            (indexed 0 (elems v))) of
           None \<Rightarrow> None
         | Some rs \<Rightarrow>
             if rs = [] \<and> (num_gt (toNumber (getProp schema ''minItems'')) (Fin 0) \<or> v = JUndef)
             then Some (JArr [generateTemplateFromSchema env (getProp schema ''items'')
                                (path @ [''0''])], True)
             else Some (JArr (map fst rs), \<not> isArray v \<or> list_ex snd rs))
      else if strictEq (getProp schema ''type'') (JStr ''string'')
      then normalizeString env schema v (generateTemplateFromSchema env schema path)
      else if strictEq (getProp schema ''type'') (JStr ''number'')
              \<or> strictEq (getProp schema ''type'') (JStr ''integer'')
      then Some (normalizeNumber schema v (generateTemplateFromSchema env schema path))
      else if strictEq (getProp schema ''type'') (JStr ''boolean'')
      then (if \<not> isBoolean v then Some (JBool False, True) else Some (v, False))
      else if strictEq (getProp schema ''type'') (JStr ''null'')
      then Some (JNull, \<not> strictEq v JNull)
      else if v = JUndef
      then Some (generateTemplateFromSchema env schema path, True)
      else Some (v, False))"
  by pat_completeness auto
termination
  by (relation "measure (\<lambda>(env, schema, v, path). size schema)")
     (auto simp: size_firstOf_getProp size_keptProperties size_items)

declare normalizeInputForSchema.simps [simp del]

subsection \<open>Predicates for the statements about the engine\<close>
















section \<open>Call signature\<close>

text \<open>
  \<^verbatim>\<open>JSON.stringify(s)\<close> of a string: the quotation mark and the backslash are escaped, the
  control characters are \<^verbatim>\<open>\b\<close>, \<^verbatim>\<open>\t\<close>, \<^verbatim>\<open>\n\<close>, \<^verbatim>\<open>\f\<close>, \<^verbatim>\<open>\r\<close> or
  \<^verbatim>\<open>\u00XX\<close> in lower-case hexadecimal.
\<close>

definition hexDigit :: "nat \<Rightarrow> char" where
  "hexDigit d = ''0123456789abcdef'' ! d"

definition escapeChar :: "char \<Rightarrow> string" where
  "escapeChar c =
     (let n = of_char c :: nat in
      if n = 34 then [CHR 0x5C, CHR 0x22]
      else if n = 92 then [CHR 0x5C, CHR 0x5C]
      else if n = 8 then [CHR 0x5C, CHR ''b'']
      else if n = 9 then [CHR 0x5C, CHR ''t'']
      else if n = 10 then [CHR 0x5C, CHR ''n'']
      else if n = 12 then [CHR 0x5C, CHR ''f'']
      else if n = 13 then [CHR 0x5C, CHR ''r'']
      else if n < 32
      then [CHR 0x5C, CHR ''u'', CHR ''0'', CHR ''0'', hexDigit (n div 16), hexDigit (n mod 16)]
      else [c])"

definition jsonQuote :: "string \<Rightarrow> string" where
  "jsonQuote s = CHR 0x22 # concat (map escapeChar s) @ [CHR 0x22]"

text \<open>
  \<^verbatim>\<open>JSON.stringify(v)\<close> as a template literal inserts it: a property whose value is
  \<^verbatim>\<open>undefined\<close> is left out, \<^verbatim>\<open>undefined\<close> in an array and a number that is not finite
  are \<^verbatim>\<open>null\<close>.
\<close>

function jsonStringify :: "js_env \<Rightarrow> jsval \<Rightarrow> string" where
  "jsonStringify env JUndef = ''undefined''"
| "jsonStringify env JNull = ''null''"
| "jsonStringify env (JBool b) = (if b then ''true'' else ''false'')"
| "jsonStringify env (JNum n) = (if isFinite n then numberToString env n else ''null'')"
| "jsonStringify env (JStr s) = jsonQuote s"
| "jsonStringify env (JArr xs) =
     ''['' @ joinWith '',''
              (map (\<lambda>x. if x = JUndef then ''null'' else jsonStringify env x) xs) @ '']''"
| "jsonStringify env (JObj kvs) =
     ''{'' @ joinWith '',''
              (map (\<lambda>(key, x). jsonQuote key @ '':'' @ jsonStringify env x)
                 (filter (\<lambda>(key, x). x \<noteq> JUndef) kvs))
       @ ''}''"
  by pat_completeness auto
termination
  by (relation "measure (\<lambda>(env, v). size v)") (auto dest: size_in_list size_in_kvs)

text \<open>
  \<^verbatim>\<open>stableStringify\<close>. Values are trees here, so the \<^verbatim>\<open>seen\<close> set never fires and is left
  out; functions, symbols and big integers are not values of the model.
  \<^verbatim>\<open>Object.keys(value).sort()\<close> orders the keys by code units.
\<close>

lemma size_getProp_key:
  "key \<in> set (sort (map fst kvs)) \<Longrightarrow>
     size (getProp (JObj kvs) key) < Suc (size_list (size_prod (\<lambda>x. 0) size) kvs)"
proof -
  assume "key \<in> set (sort (map fst kvs))"
  then have "key \<in> fst ` set kvs" by simp
  then obtain v where "map_of kvs key = Some v"
    by (metis domD dom_map_of_conv_image_fst)
  then show ?thesis using size_map_of [of kvs key v] by simp
qed

function stableStringify :: "js_env \<Rightarrow> jsval \<Rightarrow> string" where
  "stableStringify env JNull = ''null''"
| "stableStringify env JUndef = ''null''"
| "stableStringify env (JStr s) = jsonQuote s"
| "stableStringify env (JNum n) = numberToString env n"
| "stableStringify env (JBool b) = (if b then ''true'' else ''false'')"
| "stableStringify env (JArr xs) =
     ''['' @ joinWith '','' (map (stableStringify env) xs) @ '']''"
| "stableStringify env (JObj kvs) =
     ''{'' @ joinWith '',''
              (map (\<lambda>key. jsonQuote key @ '':'' @ stableStringify env (getProp (JObj kvs) key))
                 (sort (map fst kvs)))
       @ ''}''"
  by pat_completeness auto
termination
  by (relation "measure (\<lambda>(env, v). size v)")
     (auto simp del: getProp.simps simp: size_getProp_key dest: size_in_list)

text \<open>\<^verbatim>\<open>`${String(toolName || '')}::${this.stableStringify(args)}`\<close>.\<close>

definition buildToolCallSignature :: "js_env \<Rightarrow> jsval \<Rightarrow> jsval \<Rightarrow> string" where
  "buildToolCallSignature env toolName args =
     toStringJS env (if truthy toolName then toolName else JStr [])
       @ ''::'' @ stableStringify env args"


section \<open>Agent loop\<close>

text \<open>
  The loop talks to two collaborators, parameters of the model. The adapter
  (\<^verbatim>\<open>aiManager.sendMessage\<close>) gets the number of the turn, the transcript and the catalogue
  it is shown. The gateway (\<^verbatim>\<open>chrome.runtime.sendMessage\<close> with \<^verbatim>\<open>EXECUTE_TOOL\<close>) gets the
  number of earlier invocations, the tool name and the arguments, and answers with a
  result, or with an error when the response carries one or the message is rejected.
  Time stamps of trace events are left out.
\<close>

record tool =
  toolName :: string
  inputSchema :: jsval

record ai_response =
  responseError :: string
  responseText :: string
  functionCalls :: "jsval list"

datatype gateway_response = GatewayResult jsval | GatewayError string

datatype call_status = Success | Error

datatype trace_event =
    AiText string
  | ToolSkippedDuplicate jsval jsval
  | ToolArgsNormalized jsval jsval
  | ToolResult jsval jsval jsval
  | ToolError jsval jsval string
  | LoopGuardTriggered nat

datatype outcome = Returned | StoppedAfterMaxTurns | Thrown string

type_synonym adapter = "nat \<Rightarrow> (string \<times> string) list \<Rightarrow> tool list \<Rightarrow> ai_response"

type_synonym gateway = "nat \<Rightarrow> jsval \<Rightarrow> jsval \<Rightarrow> gateway_response"

text \<open>
  The state of one invocation: the transcript, the chat lines and the trace of the
  sidebar, the ledger and the flag of the loop, the three variables of the current turn,
  and two logs kept for the statements below: the requests sent to the gateway, and
  the catalogues shown to the adapter.
\<close>

record loop_state =
  aiMessages :: "(string \<times> string) list"
  chatLines :: "(string \<times> string) list"
  trace :: "trace_event list"
  executedToolCalls :: "string \<rightharpoonup> call_status"
  toolsEnabled :: bool
  toolResultLines :: "string list"
  executedThisTurn :: nat
  skippedDuplicatesThisTurn :: nat
  gatewayLog :: "(jsval \<times> jsval) list"
  adapterLog :: "tool list list"

definition maxTurns :: nat where
  "maxTurns = 5"

definition guardMessage :: string where
  "guardMessage =
     ''You are repeating identical tool calls that already succeeded. '' @
     ''Do not call tools again for this request. Use prior results and provide the final answer.''"

definition stoppedNotice :: string where
  "stoppedNotice = ''Stopped after max AI turns to avoid loops.''"

text \<open>\<^verbatim>\<open>call?.name || '(unknown_tool)'\<close>.\<close>

definition callName :: "jsval \<Rightarrow> jsval" where
  "callName call =
     (if truthy (getProp call ''name'') then getProp call ''name'' else JStr ''(unknown_tool)'')"

text \<open>
  The arguments of a call before the signature is taken: text is parsed (an empty
  object when that fails), and anything but a plain object becomes an empty object.
\<close>

definition callArgs :: "js_env \<Rightarrow> jsval \<Rightarrow> jsval" where
  "callArgs env call =
     (let rawArgs = getProp call ''args'';
          args = (case rawArgs of
                    JStr s \<Rightarrow> (case jsonParse env s of Some v \<Rightarrow> v | None \<Rightarrow> JObj [])
                  | _ \<Rightarrow> rawArgs)
      in if \<not> truthy args \<or> \<not> typeofObject args \<or> isArray args then JObj [] else args)"

definition callSignature :: "js_env \<Rightarrow> jsval \<Rightarrow> string" where
  "callSignature env call = buildToolCallSignature env (callName call) (callArgs env call)"

definition duplicateLine :: "js_env \<Rightarrow> jsval \<Rightarrow> jsval \<Rightarrow> string" where
  "duplicateLine env name args =
     toStringJS env name @ ''('' @ jsonStringify env args @ '')''
       @ '' => SKIPPED: duplicate of a successful previous call''"

definition resultLine :: "js_env \<Rightarrow> jsval \<Rightarrow> jsval \<Rightarrow> jsval \<Rightarrow> string" where
  "resultLine env name args result =
     toStringJS env name @ ''('' @ jsonStringify env args @ '')'' @ '' => ''
       @ (if typeofObject result then jsonStringify env result else toStringJS env result)"

definition errorLine :: "js_env \<Rightarrow> jsval \<Rightarrow> jsval \<Rightarrow> string \<Rightarrow> string" where
  "errorLine env name args message =
     toStringJS env name @ ''('' @ jsonStringify env args @ '')'' @ '' => ERROR: '' @ message"

text \<open>
  The arguments sent to the gateway: normalized against the schema of the catalogued tool
  of that name, when there is one and the normalization reports a change. \<open>None\<close> when
  the normalization raises.
\<close>

definition findTool :: "tool list \<Rightarrow> jsval \<Rightarrow> tool option" where
  "findTool tools name = find (\<lambda>t. strictEq (JStr (toolName t)) name) tools"

definition executedArgs :: "js_env \<Rightarrow> tool list \<Rightarrow> jsval \<Rightarrow> (jsval \<times> bool) option" where
  "executedArgs env tools call =
     (case findTool tools (callName call) of
        None \<Rightarrow> Some (callArgs env call, False)
      | Some toolDef \<Rightarrow>
          (case normalizeInputForSchema env (parseSchema env (inputSchema toolDef))
                  (callArgs env call) [] of
             None \<Rightarrow> None
           | Some (v, changed) \<Rightarrow> Some (if changed then v else callArgs env call, changed)))"

text \<open>One iteration of \<^verbatim>\<open>for (const call of functionCalls)\<close>; \<open>Inl\<close> is an exception.\<close>

definition processCall ::
  "js_env \<Rightarrow> tool list \<Rightarrow> gateway \<Rightarrow> loop_state \<Rightarrow> jsval \<Rightarrow> string + loop_state" where
  "processCall env tools gw st call =
     (let name = callName call; args = callArgs env call; sig = callSignature env call in
      if executedToolCalls st sig = Some Success then
        Inr (st\<lparr>skippedDuplicatesThisTurn := skippedDuplicatesThisTurn st + 1,
                toolResultLines := toolResultLines st @ [duplicateLine env name args],
                trace := trace st @ [ToolSkippedDuplicate name args]\<rparr>)
      else case executedArgs env tools call of
        None \<Rightarrow> Inl ''TypeError''
      | Some (args', changed) \<Rightarrow>
          (let st1 = st\<lparr>trace := trace st @ (if changed then [ToolArgsNormalized name args'] else []),
                         chatLines := chatLines st @ [(''system'', ''Calling tool: '' @ toStringJS env name)],
                         gatewayLog := gatewayLog st @ [(name, args')]\<rparr>
           in case gw (length (gatewayLog st)) name args' of
                GatewayResult result \<Rightarrow>
                  Inr (st1\<lparr>toolResultLines := toolResultLines st1 @ [resultLine env name args' result],
                           executedThisTurn := executedThisTurn st1 + 1,
                           executedToolCalls := (executedToolCalls st1)(sig \<mapsto> Success),
                           trace := trace st1 @ [ToolResult name args' result]\<rparr>)
              | GatewayError message \<Rightarrow>
                  Inr (st1\<lparr>toolResultLines := toolResultLines st1 @ [errorLine env name args' message],
                           executedToolCalls := (executedToolCalls st1)(sig \<mapsto> Error),
                           trace := trace st1 @ [ToolError name args' message]\<rparr>)))"

text \<open>The calls of a turn in order; an exception ends them, with the state it leaves.\<close>

fun processCalls ::
  "js_env \<Rightarrow> tool list \<Rightarrow> gateway \<Rightarrow> loop_state \<Rightarrow> jsval list \<Rightarrow> string option \<times> loop_state" where
  "processCalls env tools gw st [] = (None, st)"
| "processCalls env tools gw st (call # calls) =
     (case processCall env tools gw st call of
        Inl e \<Rightarrow> (Some e, st)
      | Inr st' \<Rightarrow> processCalls env tools gw st' calls)"

definition toolSummary :: "string list \<Rightarrow> string" where
  "toolSummary ls =
     ''Tool call results:'' @ [CHR 0x0A] @ joinWith [CHR 0x0A] ls @ [CHR 0x0A, CHR 0x0A] @
     ''Continue the task. Do not repeat a tool call with identical arguments if it already succeeded.''"

text \<open>
  The end of a turn that had calls: the loop guard, or the summary for the model.
\<close>

definition finishTurn :: "loop_state \<Rightarrow> loop_state" where
  "finishTurn st =
     (if executedThisTurn st = 0 \<and> skippedDuplicatesThisTurn st > 0 then
        st\<lparr>toolsEnabled := False,
           aiMessages := aiMessages st @ [(''user'', guardMessage)],
           chatLines := chatLines st @
             [(''system'', ''Duplicate tool-call loop detected. Asking AI for final answer without more tool calls.'')],
           trace := trace st @ [LoopGuardTriggered (skippedDuplicatesThisTurn st)]\<rparr>
      else
        st\<lparr>aiMessages := aiMessages st @ [(''user'', toolSummary (toolResultLines st))],
           chatLines := chatLines st @ [(''system'', ''Tool results sent back to AI.'')]\<rparr>)"

text \<open>
  The body of \<^verbatim>\<open>for (let turn = 0; turn < maxTurns; turn += 1)\<close>, up to the calls: the
  request to the adapter, its error, its text.
\<close>

definition askModel :: "tool list \<Rightarrow> adapter \<Rightarrow> nat \<Rightarrow> loop_state \<Rightarrow> ai_response \<times> loop_state" where
  "askModel tools ai turn st =
     (let shown = (if toolsEnabled st then tools else []);
          aiResponse = ai turn (aiMessages st) shown;
          text = trim (responseText aiResponse);
          st1 = st\<lparr>adapterLog := adapterLog st @ [shown]\<rparr>
      in (aiResponse,
          if responseError aiResponse \<noteq> [] \<or> text = [] then st1
          else st1\<lparr>aiMessages := aiMessages st1 @ [(''assistant'', text)],
                   chatLines := chatLines st1 @ [(''assistant'', text)],
                   trace := trace st1 @ [AiText text]\<rparr>))"

text \<open>One turn: an exception, the normal exit when no call is requested, or the calls.\<close>

datatype turn_result = TurnThrown string loop_state | TurnReturned loop_state | TurnCalls loop_state

definition runTurn ::
  "js_env \<Rightarrow> tool list \<Rightarrow> adapter \<Rightarrow> gateway \<Rightarrow> nat \<Rightarrow> loop_state \<Rightarrow> turn_result" where
  "runTurn env tools ai gw turn st =
     (let (aiResponse, st1) = askModel tools ai turn st in
      if responseError aiResponse \<noteq> [] then TurnThrown (responseError aiResponse) st1
      else if functionCalls aiResponse = [] then TurnReturned st1
      else
        (case processCalls env tools gw
                (st1\<lparr>toolResultLines := [], executedThisTurn := 0,
                     skippedDuplicatesThisTurn := 0\<rparr>)
                (functionCalls aiResponse) of
           (Some e, st2) \<Rightarrow> TurnThrown e st2
         | (None, st2) \<Rightarrow> TurnCalls st2))"

text \<open>
  The \<^verbatim>\<open>for\<close> loop with \<open>remaining\<close> turns to go, and the notice after the last one.
\<close>

fun agentTurns ::
  "js_env \<Rightarrow> tool list \<Rightarrow> adapter \<Rightarrow> gateway \<Rightarrow> nat \<Rightarrow> nat \<Rightarrow> loop_state \<Rightarrow> outcome \<times> loop_state" where
  "agentTurns env tools ai gw 0 turn st =
     (StoppedAfterMaxTurns, st\<lparr>chatLines := chatLines st @ [(''system'', stoppedNotice)]\<rparr>)"
| "agentTurns env tools ai gw (Suc remaining) turn st =
     (case runTurn env tools ai gw turn st of
        TurnThrown e st' \<Rightarrow> (Thrown e, st')
      | TurnReturned st' \<Rightarrow> (Returned, st')
      | TurnCalls st' \<Rightarrow> agentTurns env tools ai gw remaining (Suc turn) (finishTurn st'))"

text \<open>
  \<^verbatim>\<open>runAIAgentLoop\<close>: a fresh ledger, tools enabled, at most \<open>maxTurns\<close> turns. The
  transcript, the chat and the trace are the sidebar's and are carried in.
\<close>

definition initialState ::
  "(string \<times> string) list \<Rightarrow> (string \<times> string) list \<Rightarrow> trace_event list \<Rightarrow> loop_state" where
  "initialState msgs chat tr =
     \<lparr>aiMessages = msgs, chatLines = chat, trace = tr, executedToolCalls = Map.empty,
      toolsEnabled = True, toolResultLines = [], executedThisTurn = 0,
      skippedDuplicatesThisTurn = 0, gatewayLog = [], adapterLog = []\<rparr>"

definition runAIAgentLoop ::
  "js_env \<Rightarrow> tool list \<Rightarrow> adapter \<Rightarrow> gateway \<Rightarrow> (string \<times> string) list \<Rightarrow>
   (string \<times> string) list \<Rightarrow> trace_event list \<Rightarrow> outcome \<times> loop_state" where
  "runAIAgentLoop env tools ai gw msgs chat tr =
     agentTurns env tools ai gw maxTurns 0 (initialState msgs chat tr)"

text \<open>The status the ledger records for an answer of the gateway.\<close>

definition statusOf :: "gateway_response \<Rightarrow> call_status" where
  "statusOf r = (case r of GatewayResult _ \<Rightarrow> Success | GatewayError _ \<Rightarrow> Error)"

text \<open>The state a turn leaves.\<close>

fun stateOf :: "turn_result \<Rightarrow> loop_state" where
  "stateOf (TurnThrown e st) = st"
| "stateOf (TurnReturned st) = st"
| "stateOf (TurnCalls st) = st"

section \<open>A sample environment\<close>

text \<open>
  A concrete environment for evaluating the model: decimal text for numbers (up to 17
  fraction digits), a \<^verbatim>\<open>JSON.parse\<close> that reads the scalar literals \<^verbatim>\<open>null\<close>,
  \<^verbatim>\<open>true\<close>, \<^verbatim>\<open>false\<close> and unsigned integers and rejects every other text, a
  \<^verbatim>\<open>RegExp\<close> that knows the airport-code pattern and rejects every other pattern, and a
  clock fixed at 3 November 2026. It is used at inputs within this range only.
\<close>

fun fractionDigits :: "nat \<Rightarrow> rat \<Rightarrow> string" where
  "fractionDigits 0 r = []"
| "fractionDigits (Suc n) r =
     (if r = 0 then []
      else digitChar (nat \<lfloor>r * 10\<rfloor>) # fractionDigits n (r * 10 - of_int \<lfloor>r * 10\<rfloor>))"

definition decimalText :: "rat \<Rightarrow> string" where
  "decimalText q =
     (let a = \<bar>q\<bar>;
          body = natToString (nat \<lfloor>a\<rfloor>)
                 @ (if a = of_int \<lfloor>a\<rfloor> then [] else CHR ''.'' # fractionDigits 17 (a - of_int \<lfloor>a\<rfloor>))
      in if q < 0 then CHR ''-'' # body else body)"

definition scalarParse :: "string \<Rightarrow> jsval option" where
  "scalarParse s =
     (if s = ''null'' then Some JNull
      else if s = ''true'' then Some (JBool True)
      else if s = ''false'' then Some (JBool False)
      else if s \<noteq> [] \<and> list_all isDigit s \<and> (hd s \<noteq> CHR ''0'' \<or> length s = 1)
      then Some (JNum (Fin (of_nat (decimalValue s))))
      else None)"

definition isUpper :: "char \<Rightarrow> bool" where
  "isUpper c = (let n = of_char c :: nat in 65 \<le> n \<and> n \<le> 90)"

definition airportTest :: "string \<Rightarrow> string \<Rightarrow> bool option" where
  "airportTest p s =
     (if p = ''^[A-Z]{3}$'' then Some (length s = 3 \<and> list_all isUpper s) else None)"

definition sampleEnv :: js_env where
  "sampleEnv =
     \<lparr>jsonParse = scalarParse, regexTest = airportTest,
      dateAheadISO = (\<lambda>n. if n = 1 then ''2026-11-04'' else ''2026-11-05''),
      nowISO = ''2026-11-03T12:00:00.000Z'', finiteToString = decimalText\<rparr>"

definition flightSchema :: jsval where
  "flightSchema =
     JObj [(''type'', JStr ''object''),
           (''properties'',
              JObj [(''origin'', JObj [(''type'', JStr ''string''), (''pattern'', JStr ''^[A-Z]{3}$'')]),
                    (''count'', JObj [(''type'', JStr ''integer''), (''minimum'', JNum (Fin 1))])]),
           (''required'', JArr [JStr ''origin'', JStr ''count''])]"

text \<open>
  Sample data for the agent loop: a catalogue with the flight tool, a call of that tool
  with \<open>n\<close> passengers, gateways that always succeed or fail on the first invocation
  only, an adapter that repeats one call and one that asks for a new call on every turn,
  a catalogue whose schema gives a string property the default \<^verbatim>\<open>null\<close>, and two states
  whose ledger already records the call \<open>bookCall 1\<close>.
\<close>

definition sampleTools :: "tool list" where
  "sampleTools = [\<lparr>toolName = ''bookFlight'', inputSchema = flightSchema\<rparr>]"

definition bookCall :: "rat \<Rightarrow> jsval" where
  "bookCall n =
     JObj [(''name'', JStr ''bookFlight''),
           (''args'', JObj [(''origin'', JStr ''SFO''), (''count'', JNum (Fin n))])]"

definition bookArgs :: jsval where
  "bookArgs = JObj [(''origin'', JStr ''SFO''), (''count'', JNum (Fin 1))]"

definition okGateway :: gateway where
  "okGateway i name args = GatewayResult (JStr ''booked'')"

definition flakyGateway :: gateway where
  "flakyGateway i name args = (if i = 0 then GatewayError ''offline'' else GatewayResult (JStr ''booked''))"

definition repeatingAdapter :: adapter where
  "repeatingAdapter turn msgs catalogue =
     \<lparr>responseError = [], responseText = [], functionCalls = [bookCall 1]\<rparr>"

definition freshAdapter :: adapter where
  "freshAdapter turn msgs catalogue =
     \<lparr>responseError = [], responseText = [], functionCalls = [bookCall (of_nat turn + 1)]\<rparr>"

definition nullDefaultSchema :: jsval where
  "nullDefaultSchema =
     JObj [(''type'', JStr ''object''),
           (''properties'',
              JObj [(''seat'', JObj [(''type'', JStr ''string''), (''default'', JNull),
                                     (''minLength'', JNum (Fin 1))])]),
           (''required'', JArr [JStr ''seat''])]"

definition seatTools :: "tool list" where
  "seatTools = [\<lparr>toolName = ''bookFlight'', inputSchema = nullDefaultSchema\<rparr>]"

definition bookedState :: loop_state where
  "bookedState =
     (initialState [] [] [])
       \<lparr>executedToolCalls := [callSignature sampleEnv (bookCall 1) \<mapsto> Success]\<rparr>"

definition failedState :: loop_state where
  "failedState =
     (initialState [] [] [])
       \<lparr>executedToolCalls := [callSignature sampleEnv (bookCall 1) \<mapsto> Error]\<rparr>"











section \<open>Properties of the schema engine\<close>

subsection \<open>parseSchema\<close>




subsection \<open>The branches of the two functions\<close>











subsection \<open>The number case\<close>























subsection \<open>Leaves that fit\<close>





subsection \<open>Objects\<close>






subsection \<open>Template conformance\<close>





subsection \<open>Well-formed values and deep equality\<close>













subsection \<open>Normalizing a conformant value\<close>





section \<open>Properties of the agent loop\<close>

subsection \<open>One call\<close>




lemma processCall_skip:
  assumes "executedToolCalls st (callSignature env call) = Some Success"
  shows "processCall env tools gw st call =
     Inr (st\<lparr>skippedDuplicatesThisTurn := skippedDuplicatesThisTurn st + 1,
             toolResultLines := toolResultLines st
               @ [duplicateLine env (callName call) (callArgs env call)],
             trace := trace st @ [ToolSkippedDuplicate (callName call) (callArgs env call)]\<rparr>)"
  using assms by (simp add: processCall_def Let_def)

lemma processCall_exec:
  assumes "executedToolCalls st (callSignature env call) \<noteq> Some Success"
    and "executedArgs env tools call = Some (a, ch)"
  shows "\<exists>st'. processCall env tools gw st call = Inr st'
     \<and> gatewayLog st' = gatewayLog st @ [(callName call, a)]
     \<and> executedToolCalls st' = (executedToolCalls st)
          (callSignature env call \<mapsto> statusOf (gw (length (gatewayLog st)) (callName call) a))
     \<and> toolsEnabled st' = toolsEnabled st \<and> adapterLog st' = adapterLog st
     \<and> aiMessages st' = aiMessages st
     \<and> skippedDuplicatesThisTurn st' = skippedDuplicatesThisTurn st
     \<and> executedThisTurn st' = executedThisTurn st
          + (if statusOf (gw (length (gatewayLog st)) (callName call) a) = Success then 1 else 0)"
  using assms
  by (cases "gw (length (gatewayLog st)) (callName call) a")
     (simp_all add: processCall_def Let_def statusOf_def)

lemma processCall_throws:
  assumes "executedToolCalls st (callSignature env call) \<noteq> Some Success"
    and "executedArgs env tools call = None"
  shows "processCall env tools gw st call = Inl ''TypeError''"
  using assms by (simp add: processCall_def Let_def)

lemma processCall_Inr_cases:
  assumes "processCall env tools gw st call = Inr st'"
  shows "executedToolCalls st (callSignature env call) = Some Success
     \<or> (\<exists>a ch. executedArgs env tools call = Some (a, ch))"
  using assms processCall_throws [of st env call tools gw]
  by (cases "executedArgs env tools call") auto



text \<open>
  C6. A call whose signature the ledger records as an error is not skipped: it is sent to
  the gateway again. In particular, when a call has just been executed and recorded as an
  error, the same call is executed again.
\<close>

theorem retry_after_failure:
  "(executedToolCalls st (callSignature env call) = Some Error
      \<and> executedArgs env tools call = Some (a, ch) \<longrightarrow>
      (\<exists>st'. processCall env tools gw st call = Inr st'
         \<and> gatewayLog st' = gatewayLog st @ [(callName call, a)]
         \<and> skippedDuplicatesThisTurn st' = skippedDuplicatesThisTurn st))
   \<and> (processCall env tools gw st call = Inr st1
        \<and> executedToolCalls st1 (callSignature env call) = Some Error \<longrightarrow>
      (\<exists>st2 b. processCall env tools gw st1 call = Inr st2
         \<and> gatewayLog st2 = gatewayLog st @ [(callName call, b), (callName call, b)]))"
proof (intro conjI impI)
  assume "executedToolCalls st (callSignature env call) = Some Error
      \<and> executedArgs env tools call = Some (a, ch)"
  then show "\<exists>st'. processCall env tools gw st call = Inr st'
         \<and> gatewayLog st' = gatewayLog st @ [(callName call, a)]
         \<and> skippedDuplicatesThisTurn st' = skippedDuplicatesThisTurn st"
    using processCall_exec [of st env call tools a ch gw] by auto
next
  assume h: "processCall env tools gw st call = Inr st1
        \<and> executedToolCalls st1 (callSignature env call) = Some Error"
  have ns: "executedToolCalls st (callSignature env call) \<noteq> Some Success"
  proof
    assume "executedToolCalls st (callSignature env call) = Some Success"
    then have "executedToolCalls st1 (callSignature env call) = Some Success"
      using h processCall_skip [of st env call tools gw] by auto
    with h show False by simp
  qed
  with h obtain b ch' where e: "executedArgs env tools call = Some (b, ch')"
    using processCall_Inr_cases [of env tools gw st call st1] by auto
  from processCall_exec [OF ns e, of gw] h
  have l1: "gatewayLog st1 = gatewayLog st @ [(callName call, b)]" by auto
  from h have "executedToolCalls st1 (callSignature env call) \<noteq> Some Success" by simp
  from processCall_exec [OF this e, of gw] l1
  show "\<exists>st2 b. processCall env tools gw st1 call = Inr st2
         \<and> gatewayLog st2 = gatewayLog st @ [(callName call, b), (callName call, b)]"
    by auto
qed

theorem retry_after_failure_witness:
  "(\<exists>st'. processCall sampleEnv sampleTools okGateway failedState (bookCall 1) = Inr st'
       \<and> gatewayLog st' = [(JStr ''bookFlight'', bookArgs)])
   \<and> (\<exists>st1 st2. processCall sampleEnv sampleTools flakyGateway (initialState [] [] [])
                   (bookCall 1) = Inr st1
         \<and> executedToolCalls st1 (callSignature sampleEnv (bookCall 1)) = Some Error
         \<and> processCall sampleEnv sampleTools flakyGateway st1 (bookCall 1) = Inr st2
         \<and> gatewayLog st2 = [(JStr ''bookFlight'', bookArgs), (JStr ''bookFlight'', bookArgs)])"
proof -
  have n: "callName (bookCall 1) = JStr ''bookFlight''" by code_simp
  have e: "executedArgs sampleEnv sampleTools (bookCall 1) = Some (bookArgs, False)"
    by code_simp
  have b: "executedToolCalls failedState (callSignature sampleEnv (bookCall 1)) = Some Error"
    "gatewayLog failedState = []"
    by (simp_all add: failedState_def initialState_def)
  have f: "executedToolCalls (initialState [] [] []) k \<noteq> Some Success"
    "gatewayLog (initialState [] [] []) = []" for k
    by (simp_all add: initialState_def)
  from processCall_exec [of "initialState [] [] []" sampleEnv "bookCall 1" sampleTools
      bookArgs False flakyGateway] e f n
  obtain st1 where s1:
    "processCall sampleEnv sampleTools flakyGateway (initialState [] [] []) (bookCall 1) = Inr st1"
    "executedToolCalls st1 (callSignature sampleEnv (bookCall 1)) = Some Error"
    "gatewayLog st1 = [(JStr ''bookFlight'', bookArgs)]"
    by (auto simp: statusOf_def flakyGateway_def)
  from retry_after_failure
    [of "initialState [] [] []" sampleEnv "bookCall 1" sampleTools bookArgs False flakyGateway st1]
    s1 n f
  obtain st2 b where s2:
    "processCall sampleEnv sampleTools flakyGateway st1 (bookCall 1) = Inr st2"
    "gatewayLog st2 = [(JStr ''bookFlight'', b), (JStr ''bookFlight'', b)]"
    by auto
  from processCall_exec [of st1 sampleEnv "bookCall 1" sampleTools bookArgs False flakyGateway]
    e s1 s2 n
  have "gatewayLog st2 = [(JStr ''bookFlight'', bookArgs), (JStr ''bookFlight'', bookArgs)]"
    by auto
  with s1 s2 have second: "\<exists>st1 st2. processCall sampleEnv sampleTools flakyGateway
        (initialState [] [] []) (bookCall 1) = Inr st1
      \<and> executedToolCalls st1 (callSignature sampleEnv (bookCall 1)) = Some Error
      \<and> processCall sampleEnv sampleTools flakyGateway st1 (bookCall 1) = Inr st2
      \<and> gatewayLog st2 = [(JStr ''bookFlight'', bookArgs), (JStr ''bookFlight'', bookArgs)]"
    by blast
  from retry_after_failure
    [of failedState sampleEnv "bookCall 1" sampleTools bookArgs False okGateway]
    e b n
  have first: "\<exists>st'. processCall sampleEnv sampleTools okGateway failedState (bookCall 1) = Inr st'
       \<and> gatewayLog st' = [(JStr ''bookFlight'', bookArgs)]"
    by auto
  from first second show ?thesis by blast
qed



subsection \<open>Turns\<close>

lemma processCall_frame:
  assumes "processCall env tools gw st call = Inr st'"
  shows "toolsEnabled st' = toolsEnabled st \<and> adapterLog st' = adapterLog st
     \<and> aiMessages st' = aiMessages st"
proof (cases "executedToolCalls st (callSignature env call) = Some Success")
  case True
  with assms show ?thesis using processCall_skip [of st env call tools gw] by auto
next
  case False
  with assms obtain a ch where "executedArgs env tools call = Some (a, ch)"
    using processCall_Inr_cases [of env tools gw st call st'] by auto
  from processCall_exec [OF False this, of gw] assms show ?thesis by auto
qed

lemma processCalls_frame:
  "processCalls env tools gw st calls = (r, st') \<Longrightarrow>
     toolsEnabled st' = toolsEnabled st \<and> adapterLog st' = adapterLog st
     \<and> aiMessages st' = aiMessages st"
proof (induction calls arbitrary: st)
  case Nil
  then show ?case by simp
next
  case (Cons c calls)
  show ?case
  proof (cases "processCall env tools gw st c")
    case (Inl e)
    with Cons.prems show ?thesis by simp
  next
    case (Inr s1)
    with Cons.prems have "processCalls env tools gw s1 calls = (r, st')" by simp
    from Cons.IH [OF this] processCall_frame [OF Inr] show ?thesis by simp
  qed
qed

lemma processCalls_no_throw:
  assumes "\<forall>call. executedArgs env tools call \<noteq> None"
  shows "\<exists>st'. processCalls env tools gw st calls = (None, st')"
proof (induction calls arbitrary: st)
  case Nil
  show ?case by simp
next
  case (Cons c calls)
  have "\<exists>s1. processCall env tools gw st c = Inr s1"
  proof (cases "executedToolCalls st (callSignature env c) = Some Success")
    case True
    then show ?thesis using processCall_skip [of st env c tools gw] by simp
  next
    case False
    from assms have "executedArgs env tools c \<noteq> None" by simp
    then obtain a ch where "executedArgs env tools c = Some (a, ch)" by auto
    from processCall_exec [OF False this, of gw] show ?thesis by auto
  qed
  then obtain s1 where "processCall env tools gw st c = Inr s1" ..
  with Cons.IH [of s1] show ?case by simp
qed

lemma askModel_frame:
  assumes "askModel tools ai turn st = (resp, st1)"
  shows "toolsEnabled st1 = toolsEnabled st
     \<and> adapterLog st1 = adapterLog st @ [if toolsEnabled st then tools else []]
     \<and> set (aiMessages st) \<subseteq> set (aiMessages st1)"
  using assms by (auto simp: askModel_def Let_def split: if_splits)

lemma askModel_response:
  assumes "askModel tools ai turn st = (resp, st1)"
  shows "resp = ai turn (aiMessages st) (if toolsEnabled st then tools else [])"
  using assms by (auto simp: askModel_def Let_def split: if_splits)

lemma runTurn_frame:
  "toolsEnabled (stateOf (runTurn env tools ai gw turn st)) = toolsEnabled st
   \<and> adapterLog (stateOf (runTurn env tools ai gw turn st))
       = adapterLog st @ [if toolsEnabled st then tools else []]
   \<and> set (aiMessages st) \<subseteq> set (aiMessages (stateOf (runTurn env tools ai gw turn st)))"
proof -
  obtain resp st1 where a: "askModel tools ai turn st = (resp, st1)"
    by (cases "askModel tools ai turn st")
  note f = askModel_frame [OF a]
  let ?s0 = "st1\<lparr>toolResultLines := [], executedThisTurn := 0, skippedDuplicatesThisTurn := 0\<rparr>"
  obtain r st2 where p: "processCalls env tools gw ?s0 (functionCalls resp) = (r, st2)"
    by (cases "processCalls env tools gw ?s0 (functionCalls resp)")
  from processCalls_frame [OF p] f
  have "toolsEnabled st2 = toolsEnabled st
     \<and> adapterLog st2 = adapterLog st @ [if toolsEnabled st then tools else []]
     \<and> set (aiMessages st) \<subseteq> set (aiMessages st2)" by simp
  with a p f show ?thesis
    by (cases r) (simp_all add: runTurn_def)
qed

lemma finishTurn_frame:
  "adapterLog (finishTurn st) = adapterLog st
   \<and> (\<not> toolsEnabled st \<longrightarrow> \<not> toolsEnabled (finishTurn st))
   \<and> set (aiMessages st) \<subseteq> set (aiMessages (finishTurn st))"
  by (auto simp: finishTurn_def)

lemma agentTurns_bound:
  "length (adapterLog (snd (agentTurns env tools ai gw n turn st))) \<le> length (adapterLog st) + n"
proof (induction n arbitrary: turn st)
  case 0
  show ?case by simp
next
  case (Suc n)
  note f = runTurn_frame [of env tools ai gw turn st]
  show ?case
  proof (cases "runTurn env tools ai gw turn st")
    case (TurnCalls s)
    with f have "length (adapterLog (finishTurn s)) = length (adapterLog st) + 1"
      by (simp add: finishTurn_frame)
    with Suc.IH [of "Suc turn" "finishTurn s"] TurnCalls show ?thesis by simp
  qed (use f in auto)
qed

lemma agentTurns_disabled:
  "\<not> toolsEnabled st \<Longrightarrow>
     \<not> toolsEnabled (snd (agentTurns env tools ai gw n turn st))
     \<and> (\<exists>k. adapterLog (snd (agentTurns env tools ai gw n turn st))
              = adapterLog st @ replicate k [])
     \<and> set (aiMessages st) \<subseteq> set (aiMessages (snd (agentTurns env tools ai gw n turn st)))"
proof (induction n arbitrary: turn st)
  case 0
  then show ?case by simp
next
  case (Suc n)
  note f = runTurn_frame [of env tools ai gw turn st]
  show ?case
  proof (cases "runTurn env tools ai gw turn st")
    case (TurnCalls s)
    with f Suc.prems have d: "\<not> toolsEnabled (finishTurn s)"
      and l: "adapterLog (finishTurn s) = adapterLog st @ replicate 1 []"
      and m: "set (aiMessages st) \<subseteq> set (aiMessages (finishTurn s))"
      using finishTurn_frame [of s] by auto
    from Suc.IH [OF d, of "Suc turn"] obtain k where
      k: "adapterLog (snd (agentTurns env tools ai gw n (Suc turn) (finishTurn s)))
            = adapterLog (finishTurn s) @ replicate k []"
      and rest: "\<not> toolsEnabled (snd (agentTurns env tools ai gw n (Suc turn) (finishTurn s)))"
        "set (aiMessages (finishTurn s))
           \<subseteq> set (aiMessages (snd (agentTurns env tools ai gw n (Suc turn) (finishTurn s))))"
      by auto
    from k l have "adapterLog (snd (agentTurns env tools ai gw n (Suc turn) (finishTurn s)))
            = adapterLog st @ replicate (Suc k) []"
      by simp
    then have "\<exists>j. adapterLog (snd (agentTurns env tools ai gw n (Suc turn) (finishTurn s)))
            = adapterLog st @ replicate j []" ..
    with rest m TurnCalls show ?thesis by auto
  next
    case (TurnThrown e s)
    with f Suc.prems have "adapterLog s = adapterLog st @ replicate 1 []" by simp
    then have "\<exists>j. adapterLog s = adapterLog st @ replicate j []" ..
    with f Suc.prems TurnThrown show ?thesis by auto
  next
    case (TurnReturned s)
    with f Suc.prems have "adapterLog s = adapterLog st @ replicate 1 []" by simp
    then have "\<exists>j. adapterLog s = adapterLog st @ replicate j []" ..
    with f Suc.prems TurnReturned show ?thesis by auto
  qed
qed

text \<open>
  C8. When a turn ends with no call executed and at least one duplicate skipped, the
  corrective instruction is appended to the transcript, and from then on to the end of
  the invocation the tools stay disabled: every later request shows the adapter an empty
  catalogue. Once disabled, nothing enables the tools again.
\<close>

theorem loop_guard:
  "(runTurn env tools ai gw turn st = TurnCalls st2
      \<and> executedThisTurn st2 = 0 \<and> 0 < skippedDuplicatesThisTurn st2 \<longrightarrow>
      aiMessages (finishTurn st2) = aiMessages st2 @ [(''user'', guardMessage)]
      \<and> \<not> toolsEnabled (snd (agentTurns env tools ai gw (Suc n) turn st))
      \<and> (''user'', guardMessage)
           \<in> set (aiMessages (snd (agentTurns env tools ai gw (Suc n) turn st)))
      \<and> (\<exists>k. adapterLog (snd (agentTurns env tools ai gw (Suc n) turn st))
               = adapterLog st2 @ replicate k []))
   \<and> (\<not> toolsEnabled st \<longrightarrow>
        \<not> toolsEnabled (snd (agentTurns env tools ai gw n turn st))
        \<and> (\<exists>k. adapterLog (snd (agentTurns env tools ai gw n turn st))
                 = adapterLog st @ replicate k []))"
proof (intro conjI impI)
  assume h: "runTurn env tools ai gw turn st = TurnCalls st2
      \<and> executedThisTurn st2 = 0 \<and> 0 < skippedDuplicatesThisTurn st2"
  then have g: "aiMessages (finishTurn st2) = aiMessages st2 @ [(''user'', guardMessage)]"
    and d: "\<not> toolsEnabled (finishTurn st2)"
    and l: "adapterLog (finishTurn st2) = adapterLog st2"
    by (simp_all add: finishTurn_def)
  from h have e: "agentTurns env tools ai gw (Suc n) turn st
      = agentTurns env tools ai gw n (Suc turn) (finishTurn st2)" by simp
  note r = agentTurns_disabled [OF d, of env tools ai gw n "Suc turn"]
  show "aiMessages (finishTurn st2) = aiMessages st2 @ [(''user'', guardMessage)]" by (rule g)
  show "\<not> toolsEnabled (snd (agentTurns env tools ai gw (Suc n) turn st))"
    using r e by simp
  show "(''user'', guardMessage)
           \<in> set (aiMessages (snd (agentTurns env tools ai gw (Suc n) turn st)))"
    using r e g by auto
  show "\<exists>k. adapterLog (snd (agentTurns env tools ai gw (Suc n) turn st))
               = adapterLog st2 @ replicate k []"
    using r e l by simp
next
  assume "\<not> toolsEnabled st"
  from agentTurns_disabled [OF this, of env tools ai gw n turn]
  show "\<not> toolsEnabled (snd (agentTurns env tools ai gw n turn st))"
    and "\<exists>k. adapterLog (snd (agentTurns env tools ai gw n turn st))
                 = adapterLog st @ replicate k []"
    by auto
qed

theorem loop_guard_witness:
  "(\<exists>st2. runTurn sampleEnv sampleTools repeatingAdapter okGateway 1 bookedState = TurnCalls st2
       \<and> executedThisTurn st2 = 0 \<and> skippedDuplicatesThisTurn st2 = 1
       \<and> aiMessages (finishTurn st2) = [(''user'', guardMessage)]
       \<and> (\<exists>k. adapterLog (snd (agentTurns sampleEnv sampleTools repeatingAdapter okGateway
                    (Suc 3) 1 bookedState)) = adapterLog st2 @ replicate k []))
   \<and> toolsEnabled bookedState
   \<and> \<not> toolsEnabled (snd (agentTurns sampleEnv sampleTools repeatingAdapter okGateway
          (Suc 3) 1 bookedState))
   \<and> adapterLog (snd (agentTurns sampleEnv sampleTools repeatingAdapter okGateway
          (Suc 3) 1 bookedState)) = [sampleTools, [], [], []]
   \<and> (''user'', guardMessage)
        \<in> set (aiMessages (snd (agentTurns sampleEnv sampleTools repeatingAdapter okGateway
              (Suc 3) 1 bookedState)))"
proof -
  let ?r = "runTurn sampleEnv sampleTools repeatingAdapter okGateway 1 bookedState"
  have "case ?r of TurnCalls st2 \<Rightarrow> executedThisTurn st2 = 0 \<and> skippedDuplicatesThisTurn st2 = 1
           \<and> aiMessages st2 = [] | _ \<Rightarrow> False"
    by code_simp
  then obtain st2 where r: "?r = TurnCalls st2" "executedThisTurn st2 = 0"
      "skippedDuplicatesThisTurn st2 = 1" "aiMessages st2 = []"
    by (cases ?r) auto
  have l: "adapterLog (snd (agentTurns sampleEnv sampleTools repeatingAdapter okGateway
          (Suc 3) 1 bookedState)) = [sampleTools, [], [], []]"
    by code_simp
  have t: "toolsEnabled bookedState" by (simp add: bookedState_def initialState_def)
  from loop_guard [of sampleEnv sampleTools repeatingAdapter okGateway 1 bookedState st2 3] r l t
  show ?thesis by auto
qed

text \<open>
  The loop asks the adapter at most \<open>maxTurns\<close> times, whatever the adapter, the gateway
  and the catalogue do.
\<close>

theorem turns_bounded:
  "length (adapterLog (snd (runAIAgentLoop env tools ai gw msgs chat tr))) \<le> maxTurns"
  using agentTurns_bound [of env tools ai gw maxTurns 0 "initialState msgs chat tr"]
  by (simp add: runAIAgentLoop_def initialState_def)

text \<open>
  When the adapter never reports an error and requests at least one call on every turn,
  and no normalization raises, the loop takes exactly \<open>maxTurns\<close> turns and ends with
  the notice.
\<close>

lemma agentTurns_exact:
  assumes "\<forall>t m c. responseError (ai t m c) = [] \<and> functionCalls (ai t m c) \<noteq> []"
    and "\<forall>call. executedArgs env tools call \<noteq> None"
  shows "\<exists>st'. agentTurns env tools ai gw n turn st = (StoppedAfterMaxTurns, st')
     \<and> length (adapterLog st') = length (adapterLog st) + n
     \<and> last (chatLines st') = (''system'', stoppedNotice)"
proof (induction n arbitrary: turn st)
  case 0
  show ?case by simp
next
  case (Suc n)
  obtain resp st1 where a: "askModel tools ai turn st = (resp, st1)"
    by (cases "askModel tools ai turn st")
  from askModel_response [OF a] assms(1)
  have r: "responseError resp = []" "functionCalls resp \<noteq> []" by auto
  let ?s0 = "st1\<lparr>toolResultLines := [], executedThisTurn := 0, skippedDuplicatesThisTurn := 0\<rparr>"
  from processCalls_no_throw [OF assms(2), of gw ?s0 "functionCalls resp"]
  obtain st2 where p: "processCalls env tools gw ?s0 (functionCalls resp) = (None, st2)" ..
  from a r p have t: "runTurn env tools ai gw turn st = TurnCalls st2"
    by (simp add: runTurn_def)
  from runTurn_frame [of env tools ai gw turn st] t
  have "length (adapterLog (finishTurn st2)) = length (adapterLog st) + 1"
    by (simp add: finishTurn_frame)
  with Suc.IH [of "Suc turn" "finishTurn st2"] t show ?case by auto
qed

theorem bounded_turns_exact:
  assumes "\<forall>t m c. responseError (ai t m c) = [] \<and> functionCalls (ai t m c) \<noteq> []"
    and "\<forall>call. executedArgs env tools call \<noteq> None"
  shows "fst (runAIAgentLoop env tools ai gw msgs chat tr) = StoppedAfterMaxTurns
     \<and> length (adapterLog (snd (runAIAgentLoop env tools ai gw msgs chat tr))) = maxTurns
     \<and> last (chatLines (snd (runAIAgentLoop env tools ai gw msgs chat tr)))
         = (''system'', stoppedNotice)"
  using agentTurns_exact [OF assms, of gw maxTurns 0 "initialState msgs chat tr"]
  by (auto simp: runAIAgentLoop_def initialState_def)

lemma sample_run:
  "fst (runAIAgentLoop sampleEnv sampleTools freshAdapter okGateway [] [] []) = StoppedAfterMaxTurns
   \<and> length (adapterLog (snd (runAIAgentLoop sampleEnv sampleTools freshAdapter okGateway [] [] []))) = 5
   \<and> length (gatewayLog (snd (runAIAgentLoop sampleEnv sampleTools freshAdapter okGateway [] [] []))) = 5"
  by code_simp

text \<open>
  C7 on the code. The calls of a turn are normalized outside the \<^verbatim>\<open>try\<close> block that
  absorbs the failures of the gateway, and the string case of
  \<^verbatim>\<open>normalizeInputForSchema\<close> reads \<^verbatim>\<open>length\<close> of the template, which is \<^verbatim>\<open>null\<close> for a
  schema with \<^verbatim>\<open>default: null\<close>. With such a catalogue the adapter that requests a new
  call on every turn gets one turn only: the loop ends with the \<^verbatim>\<open>TypeError\<close>, before
  any call reaches the gateway.
\<close>

theorem bounded_turns_fails_on_raising_schema:
  "fst (runAIAgentLoop sampleEnv seatTools freshAdapter okGateway [] [] []) = Thrown ''TypeError''
   \<and> length (adapterLog (snd (runAIAgentLoop sampleEnv seatTools freshAdapter okGateway [] [] []))) = 1
   \<and> gatewayLog (snd (runAIAgentLoop sampleEnv seatTools freshAdapter okGateway [] [] [])) = []
   \<and> functionCalls (freshAdapter 0 [] seatTools) = [bookCall 1]
   \<and> normalizeInputForSchema sampleEnv nullDefaultSchema
        (JObj [(''origin'', JStr ''SFO''), (''count'', JNum (Fin 1))]) [] = None"
  by code_simp

end
